theory Spec2Isabelle
  imports Main "HOL-Library.Word"
begin

section \<open>Data model of package collection\<close>

text \<open>Go's \<open>int64\<close>: 64-bit two's complement; \<open>+\<close> and \<open>-\<close> wrap, comparisons are
  signed (\<open>sint\<close>).\<close>

type_synonym int64 = "64 word"

text \<open>Modelled from the spec: the declaration of \<open>Config\<close> in package collection is not
  among the sources; only the fields that collector.go reads are listed, each an
  \<open>int64\<close> as the spec's data model and the \<open>conf\<close> struct of package main have them, so
  that the conversion \<open>int64(cfg.ThreadsActiveUpperBound)\<close> changes nothing.\<close>

record Config =
  TimeInterval :: int64
  TimeAliveIncrementer :: int64
  TotalheapSizeUpperBound :: int64
  ThreadsActiveUpperBound :: int64
  CpuUsageUpperBound :: int64

text \<open>The package-level variables \<open>threadsActive\<close> and \<open>threadsBool\<close>.\<close>

record globals =
  threadsActive :: int64
  threadsBool :: bool

definition initGlobals :: globals where
  "initGlobals = \<lparr>threadsActive = 0, threadsBool = True\<rparr>"

text \<open>The struct \<open>randomMetricCollector\<close>: four instrument handles. A handle is whatever
  the metrics backend returned (the type \<open>'h\<close>); \<open>None\<close> is Go's nil interface value.
  The field \<open>threadsActive\<close> of the struct is written \<open>threadsActiveInst\<close>, the global
  variable of the same name keeps it.\<close>

record 'h randomMetricCollector =
  timeAlive :: "'h option"
  cpuUsage :: "'h option"
  heapSize :: "'h option"
  threadsActiveInst :: "'h option"

text \<open>What the code does to the outside, in order: \<open>Add(ctx, n)\<close> on a synchronous
  instrument, \<open>Observe(ctx, n)\<close> on an asynchronous one, \<open>fmt.Println\<close> of a line.\<close>

datatype 'h call = Add 'h int64 | Observe 'h int64 | Println string

text \<open>A Go panic, with its message. Nothing in the two source files recovers from one.\<close>

datatype failure = Panic string

text \<open>A method call on an interface value: on nil the Go run time panics, otherwise the
  call reaches the instrument.\<close>

definition callAdd :: "'h option \<Rightarrow> int64 \<Rightarrow> failure + 'h call list" where
  "callAdd inst n =
    (case inst of
       None \<Rightarrow> Inl (Panic ''runtime error: invalid memory address or nil pointer dereference'')
     | Some h \<Rightarrow> Inr [Add h n])"

definition callObserve :: "'h option \<Rightarrow> int64 \<Rightarrow> failure + 'h call list" where
  "callObserve inst n =
    (case inst of
       None \<Rightarrow> Inl (Panic ''runtime error: invalid memory address or nil pointer dereference'')
     | Some h \<Rightarrow> Inr [Observe h n])"

section \<open>Registration of the instruments\<close>

datatype kind = SyncCounter | AsyncGauge | AsyncUpDownCounter | SyncUpDownCounter

text \<open>The meter of the metrics backend, which is not part of the repository: asked for an
  instrument of a kind with a name, a description and a unit, in a backend state \<open>'s\<close>, it
  answers with a handle and an error (\<open>None\<close> for nil) and a new backend state.\<close>

type_synonym ('s, 'h) meter =
  "kind \<Rightarrow> string \<Rightarrow> string \<Rightarrow> string \<Rightarrow> 's \<Rightarrow> ('h option \<times> string option) \<times> 's"

text \<open>\<open>if err != nil { fmt.Println(err) }\<close>\<close>

definition printErr :: "string option \<Rightarrow> 'h call list" where
  "printErr err = (case err of None \<Rightarrow> [] | Some e \<Rightarrow> [Println e])"

definition registerTimeAlive ::
  "('s, 'h) meter \<Rightarrow> 'h randomMetricCollector \<Rightarrow> 's
    \<Rightarrow> 'h randomMetricCollector \<times> 'h call list \<times> 's" where
  "registerTimeAlive meter rmc s =
    (let ((timeAlive', err), s') =
           meter SyncCounter ''Time Alive''
             ''Total amount of time that the application has been alive'' ''s'' s
     in (rmc\<lparr>timeAlive := timeAlive'\<rparr>, printErr err, s'))"

definition registerCpuUsage ::
  "('s, 'h) meter \<Rightarrow> 'h randomMetricCollector \<Rightarrow> 's
    \<Rightarrow> 'h randomMetricCollector \<times> 'h call list \<times> 's" where
  "registerCpuUsage meter rmc s =
    (let ((cpuUsage', err), s') =
           meter AsyncGauge ''CPU Usage'' ''Cpu usage percent'' ''%'' s
     in (rmc\<lparr>cpuUsage := cpuUsage'\<rparr>, printErr err, s'))"

definition registerHeapSize ::
  "('s, 'h) meter \<Rightarrow> 'h randomMetricCollector \<Rightarrow> 's
    \<Rightarrow> 'h randomMetricCollector \<times> 'h call list \<times> 's" where
  "registerHeapSize meter rmc s =
    (let ((totalHeapSize, err), s') =
           meter AsyncUpDownCounter ''Total Heap Size'' ''The current total heap size'' ''1'' s
     in (rmc\<lparr>heapSize := totalHeapSize\<rparr>, printErr err, s'))"

definition registerThreadsActive ::
  "('s, 'h) meter \<Rightarrow> 'h randomMetricCollector \<Rightarrow> 's
    \<Rightarrow> 'h randomMetricCollector \<times> 'h call list \<times> 's" where
  "registerThreadsActive meter rmc s =
    (let ((threadsActive', err), s') =
           meter SyncUpDownCounter ''Threads Active'' ''The total amount of threads active''
             ''1'' s
     in (rmc\<lparr>threadsActiveInst := threadsActive'\<rparr>, printErr err, s'))"

text \<open>\<open>NewRandomMetricCollector\<close>: the zero struct, then the four registrations in the
  order of the source. The result is the collector, what was printed, and the backend
  state.\<close>

definition NewRandomMetricCollector ::
  "('s, 'h) meter \<Rightarrow> 's \<Rightarrow> 'h randomMetricCollector \<times> 'h call list \<times> 's" where
  "NewRandomMetricCollector meter s0 =
    (let rmc0 = \<lparr>timeAlive = None, cpuUsage = None, heapSize = None,
                  threadsActiveInst = None\<rparr>;
         (rmc1, out1, s1) = registerHeapSize meter rmc0 s0;
         (rmc2, out2, s2) = registerThreadsActive meter rmc1 s1;
         (rmc3, out3, s3) = registerTimeAlive meter rmc2 s2;
         (rmc4, out4, s4) = registerCpuUsage meter rmc3 s3
     in (rmc4, out1 @ out2 @ out3 @ out4, s4))"

section \<open>The active-threads oscillator\<close>

text \<open>\<open>updateThreadsActive\<close>: one tick. Returns the calls made, in order, and the updated
  globals, or the panic of a call on a nil instrument.\<close>

definition updateThreadsActive ::
  "'h randomMetricCollector \<Rightarrow> Config \<Rightarrow> globals \<Rightarrow> failure + ('h call list \<times> globals)" where
  "updateThreadsActive rmc cfg g =
    (if threadsBool g then
       (if threadsActive g <s ThreadsActiveUpperBound cfg then
          (case callAdd (threadsActiveInst rmc) 1 of
             Inl p \<Rightarrow> Inl p
           | Inr cs \<Rightarrow> Inr (cs, g\<lparr>threadsActive := threadsActive g + 1\<rparr>))
        else
          Inr ([], g\<lparr>threadsBool := False, threadsActive := threadsActive g - 1\<rparr>))
     else
       (if 0 <s threadsActive g then
          (case callAdd (threadsActiveInst rmc) (- 1) of
             Inl p \<Rightarrow> Inl p
           | Inr cs \<Rightarrow> Inr (cs, g\<lparr>threadsActive := threadsActive g - 1\<rparr>))
        else
          Inr ([], g\<lparr>threadsBool := True, threadsActive := threadsActive g + 1\<rparr>)))"

text \<open>\<open>n\<close> successive calls of \<open>updateThreadsActive\<close> from the globals \<open>g\<close>; the loop
  of \<open>UpdateMetricsClient\<close> makes one in each round, and nothing else in a round reads or
  writes the globals. The result is all the calls made and the globals reached, or the
  first panic.\<close>

primrec ticks ::
  "'h randomMetricCollector \<Rightarrow> Config \<Rightarrow> nat \<Rightarrow> globals \<Rightarrow> failure + ('h call list \<times> globals)"
  where
  "ticks rmc cfg 0 g = Inr ([], g)"
| "ticks rmc cfg (Suc n) g =
    (case ticks rmc cfg n g of
       Inl p \<Rightarrow> Inl p
     | Inr (cs, g') \<Rightarrow>
         (case updateThreadsActive rmc cfg g' of
            Inl p \<Rightarrow> Inl p
          | Inr (cs', g'') \<Rightarrow> Inr (cs @ cs', g'')))"

section \<open>The random bounded generators\<close>

text \<open>\<open>rand.Intn\<close> of math/rand, which is not part of the repository, after its
  documentation: a non-negative number in \<open>[0, n)\<close>, and a panic if \<open>n \<le> 0\<close>. The number
  \<open>r\<close> is the raw draw of the default source. Go's \<open>int\<close> is taken as 64 bits wide, so
  that the conversions \<open>int(...)\<close> and \<open>int64(...)\<close> of the callbacks change nothing.\<close>

definition Intn :: "nat \<Rightarrow> int64 \<Rightarrow> failure + int64" where
  "Intn r n =
    (if n \<le>s 0 then Inl (Panic ''invalid argument to Intn'')
     else Inr (word_of_nat (r mod nat (sint n))))"

text \<open>The closure that \<open>updateCpuUsage\<close> hands to the backend, called with the raw draw.\<close>

definition cpuUsageCallback ::
  "'h randomMetricCollector \<Rightarrow> Config \<Rightarrow> nat \<Rightarrow> failure + 'h call list" where
  "cpuUsageCallback rmc cfg r =
    (let min = 0;
         max = CpuUsageUpperBound cfg
     in case Intn r (max - min) of
          Inl p \<Rightarrow> Inl p
        | Inr x \<Rightarrow>
            (case callObserve (cpuUsage rmc) (x + min) of
               Inl p \<Rightarrow> Inl p
             | Inr cs \<Rightarrow> Inr (cs @ [Println ''CPU Usage asked by SDK''])))"

text \<open>The closure that \<open>updateTotalHeapSize\<close> hands to the backend.\<close>

definition totalHeapSizeCallback ::
  "'h randomMetricCollector \<Rightarrow> Config \<Rightarrow> nat \<Rightarrow> failure + 'h call list" where
  "totalHeapSizeCallback rmc cfg r =
    (let min = 0;
         max = TotalheapSizeUpperBound cfg
     in case Intn r (max - min) of
          Inl p \<Rightarrow> Inl p
        | Inr x \<Rightarrow>
            (case callObserve (heapSize rmc) (x + min) of
               Inl p \<Rightarrow> Inl p
             | Inr cs \<Rightarrow> Inr (cs @ [Println ''Heapsize asked by SDK''])))"

text \<open>\<open>updateCpuUsage\<close> and \<open>updateTotalHeapSize\<close>: \<open>registerCallback\<close> is the backend's
  \<open>RegisterCallback\<close>, answering with an error or nil; an error is a panic, otherwise the
  backend holds the closure and calls it on its own clock.\<close>

definition updateCpuUsage ::
  "('h option list \<Rightarrow> string option) \<Rightarrow> 'h randomMetricCollector \<Rightarrow> Config
    \<Rightarrow> failure + (nat \<Rightarrow> failure + 'h call list)" where
  "updateCpuUsage registerCallback rmc cfg =
    (case registerCallback [cpuUsage rmc] of
       Some err \<Rightarrow> Inl (Panic err)
     | None \<Rightarrow> Inr (cpuUsageCallback rmc cfg))"

definition updateTotalHeapSize ::
  "('h option list \<Rightarrow> string option) \<Rightarrow> 'h randomMetricCollector \<Rightarrow> Config
    \<Rightarrow> failure + (nat \<Rightarrow> failure + 'h call list)" where
  "updateTotalHeapSize registerCallback rmc cfg =
    (case registerCallback [heapSize rmc] of
       Some err \<Rightarrow> Inl (Panic err)
     | None \<Rightarrow> Inr (totalHeapSizeCallback rmc cfg))"

section \<open>Configuration loading of package main\<close>

text \<open>The struct \<open>conf\<close>. Four of its field names are those of \<open>Config\<close> and carry a
  prime here.\<close>

record conf =
  Host :: string
  Port :: string
  TimeAliveIncrementer' :: int64
  TotalheapSizeUpperBound' :: int64
  ThreadsActiveUpperBound' :: int64
  CpuUsageUpperBound' :: int64

definition defaultHost :: string where "defaultHost = ''0.0.0.0''"
definition defaultPort :: string where "defaultPort = ''4567''"
definition defaultTimeAliveIncrementer :: int64 where "defaultTimeAliveIncrementer = 1"
definition defaultTotalHeapSizeUpperBound :: int64 where "defaultTotalHeapSizeUpperBound = 100"
definition defaultThreadsActiveUpperBound :: int64 where "defaultThreadsActiveUpperBound = 10"
definition defaultCpuUsageUpperBound :: int64 where "defaultCpuUsageUpperBound = 100"

definition getDefaultConfig :: "conf \<Rightarrow> conf" where
  "getDefaultConfig c =
    c\<lparr>Host := defaultHost,
      Port := defaultPort,
      TimeAliveIncrementer' := defaultTimeAliveIncrementer,
      TotalheapSizeUpperBound' := defaultTotalHeapSizeUpperBound,
      ThreadsActiveUpperBound' := defaultThreadsActiveUpperBound,
      CpuUsageUpperBound' := defaultCpuUsageUpperBound\<rparr>"

text \<open>\<open>getConf\<close>. The file system and the YAML library are not part of the repository:
  \<open>readFile\<close> answers a path with an error or the contents, \<open>unmarshal\<close> answers the
  contents and the struct to fill with the struct as it left it (on an error possibly
  partly filled) and an error or nil.\<close>

definition getConf ::
  "(string \<Rightarrow> string + string) \<Rightarrow> (string \<Rightarrow> conf \<Rightarrow> conf \<times> string option) \<Rightarrow> conf \<Rightarrow> conf"
  where
  "getConf readFile unmarshal c =
    (case readFile ''config.yaml'' of
       Inl err \<Rightarrow> getDefaultConfig c
     | Inr yamlFile \<Rightarrow>
         (case unmarshal yamlFile c of
            (c', Some err) \<Rightarrow> getDefaultConfig c'
          | (c', None) \<Rightarrow> c'))"

text \<open>\<open>var c conf\<close> of \<open>main\<close>: every field at its zero value.\<close>

definition zeroConf :: conf where
  "zeroConf = \<lparr>Host = [], Port = [], TimeAliveIncrementer' = 0, TotalheapSizeUpperBound' = 0,
     ThreadsActiveUpperBound' = 0, CpuUsageUpperBound' = 0\<rparr>"


text \<open>The decoding step of \<open>yaml.Unmarshal\<close>, after the \<open>yaml\<close> tags of the struct and the
  library's documentation: a document is a sequence of entries, one for each key that names
  a field of \<open>conf\<close>; an entry sets its field, and a field that no entry names is left as it
  was. Keys that name no field are ignored by the library and are not listed.\<close>

datatype yamlEntry =
  HostEntry string
| PortEntry string
| RandomTimeAliveIncrementer int64
| RandomTotalHeapSizeUpperBound int64
| RandomThreadsActiveUpperBound int64
| RandomCpuUsageUpperBound int64

fun setEntry :: "yamlEntry \<Rightarrow> conf \<Rightarrow> conf" where
  "setEntry (HostEntry v) c = c\<lparr>Host := v\<rparr>"
| "setEntry (PortEntry v) c = c\<lparr>Port := v\<rparr>"
| "setEntry (RandomTimeAliveIncrementer v) c = c\<lparr>TimeAliveIncrementer' := v\<rparr>"
| "setEntry (RandomTotalHeapSizeUpperBound v) c = c\<lparr>TotalheapSizeUpperBound' := v\<rparr>"
| "setEntry (RandomThreadsActiveUpperBound v) c = c\<lparr>ThreadsActiveUpperBound' := v\<rparr>"
| "setEntry (RandomCpuUsageUpperBound v) c = c\<lparr>CpuUsageUpperBound' := v\<rparr>"

definition decode :: "yamlEntry list \<Rightarrow> conf \<Rightarrow> conf" where
  "decode doc c = fold setEntry doc c"

section \<open>Concrete inputs\<close>

text \<open>A collector with four distinct instruments, and a configuration with a given bound
  for the active threads.\<close>

definition exampleCollector :: "nat randomMetricCollector" where
  "exampleCollector =
    \<lparr>timeAlive = Some 0, cpuUsage = Some 1, heapSize = Some 2, threadsActiveInst = Some 3\<rparr>"

definition exampleConfig :: "int64 \<Rightarrow> Config" where
  "exampleConfig B =
    \<lparr>TimeInterval = 1, TimeAliveIncrementer = 1, TotalheapSizeUpperBound = 100,
     ThreadsActiveUpperBound = B, CpuUsageUpperBound = 100\<rparr>"

text \<open>A backend that numbers the instruments it creates and rejects one name.\<close>

definition exampleMeter :: "string \<Rightarrow> (nat, nat) meter" where
  "exampleMeter rejected k name description unit s =
    (if name = rejected then ((None, Some ''instrument rejected''), s)
     else ((Some s, None), Suc s))"

text \<open>A file system without \<open>config.yaml\<close>, and one that holds it with given contents.\<close>

definition noFile :: "string \<Rightarrow> string + string" where
  "noFile path = Inl ''no such file or directory''"

definition oneFile :: "string \<Rightarrow> string \<Rightarrow> string + string" where
  "oneFile contents path =
    (if path = ''config.yaml'' then Inr contents else Inl ''no such file or directory'')"

text \<open>Two answers of the YAML library: a parse failure that has already overwritten a
  field, and a successful parse of a document with the keys \<open>Host\<close> and \<open>Port\<close> only.\<close>

definition failingUnmarshal :: "string \<Rightarrow> conf \<Rightarrow> conf \<times> string option" where
  "failingUnmarshal yamlFile c = (c\<lparr>Host := ''example.org''\<rparr>, Some ''yaml: unmarshal errors'')"

definition hostPortUnmarshal :: "string \<Rightarrow> conf \<Rightarrow> conf \<times> string option" where
  "hostPortUnmarshal yamlFile c =
    (decode [HostEntry ''127.0.0.1'', PortEntry ''8080''] c, None)"

section \<open>Signed 64-bit arithmetic\<close>

lemma sint_lt_max: "sint (B :: int64) < 2 ^ 63"
  using sint_lt [of B] by simp

lemma sint_ge_min: "- (2 ^ 63) \<le> sint (B :: int64)"
  using sint_ge [of B] by simp

lemma sint_succ: "sint (v :: int64) < sint (B :: int64) \<Longrightarrow> sint (v + 1) = sint v + 1"
  using sint_lt_max [of B] sint_ge_min [of v]
  by (simp add: sint_word_ariths signed_take_bit_int_eq_self)

lemma sint_pred: "0 \<le> sint (v :: int64) \<Longrightarrow> sint (v - 1) = sint v - 1"
  using sint_lt_max [of v]
  by (simp add: sint_word_ariths signed_take_bit_int_eq_self)

lemma sint_of_nat64: "k < 2 ^ 63 \<Longrightarrow> sint (word_of_nat k :: int64) = int k"
  by (simp add: signed_of_nat signed_take_bit_int_eq_self)

lemma nat_sint_lt: "nat (sint (B :: int64)) < 2 ^ 63"
  using sint_lt_max [of B] by (simp add: nat_less_iff)

lemma word_of_nat_pos: "0 < j \<Longrightarrow> j < 2 ^ 63 \<Longrightarrow> 0 <s (word_of_nat j :: int64)"
  by (simp add: word_sless_alt sint_of_nat64)

lemma word_of_nat_pred: "0 < j \<Longrightarrow> (word_of_nat j :: int64) - 1 = word_of_nat (j - 1)"
  by (cases j) simp_all

section \<open>One tick of the oscillator\<close>

lemma tick_rising_below:
  "threadsActiveInst rmc = Some h \<Longrightarrow> threadsBool g \<Longrightarrow>
   threadsActive g <s ThreadsActiveUpperBound cfg \<Longrightarrow>
   updateThreadsActive rmc cfg g = Inr ([Add h 1], g\<lparr>threadsActive := threadsActive g + 1\<rparr>)"
  by (simp add: updateThreadsActive_def callAdd_def)

lemma tick_rising_top:
  "threadsBool g \<Longrightarrow> \<not> threadsActive g <s ThreadsActiveUpperBound cfg \<Longrightarrow>
   updateThreadsActive rmc cfg g =
     Inr ([], g\<lparr>threadsBool := False, threadsActive := threadsActive g - 1\<rparr>)"
  by (simp add: updateThreadsActive_def)

lemma tick_falling_above:
  "threadsActiveInst rmc = Some h \<Longrightarrow> \<not> threadsBool g \<Longrightarrow> 0 <s threadsActive g \<Longrightarrow>
   updateThreadsActive rmc cfg g = Inr ([Add h (- 1)], g\<lparr>threadsActive := threadsActive g - 1\<rparr>)"
  by (simp add: updateThreadsActive_def callAdd_def)

lemma tick_falling_bottom:
  "\<not> threadsBool g \<Longrightarrow> \<not> 0 <s threadsActive g \<Longrightarrow>
   updateThreadsActive rmc cfg g =
     Inr ([], g\<lparr>threadsBool := True, threadsActive := threadsActive g + 1\<rparr>)"
  by (simp add: updateThreadsActive_def)

lemma tick_total:
  "threadsActiveInst rmc = Some h \<Longrightarrow> \<exists>cs g'. updateThreadsActive rmc cfg g = Inr (cs, g')"
  by (simp add: updateThreadsActive_def callAdd_def)

lemma tick_in_range:
  assumes "updateThreadsActive rmc cfg g = Inr (cs, g')"
    and "1 \<le> sint (ThreadsActiveUpperBound cfg)"
    and "0 \<le> sint (threadsActive g)"
    and "sint (threadsActive g) \<le> sint (ThreadsActiveUpperBound cfg)"
  shows "0 \<le> sint (threadsActive g') \<and> sint (threadsActive g') \<le> sint (ThreadsActiveUpperBound cfg)"
  using assms sint_succ [of "threadsActive g" "ThreadsActiveUpperBound cfg"]
    sint_pred [of "threadsActive g"] sint_succ [of "threadsActive g" 1]
  by (auto simp: updateThreadsActive_def word_sless_alt split: if_splits sum.splits)

lemma ticks_in_range:
  assumes "threadsActiveInst rmc = Some h" and "1 \<le> sint (ThreadsActiveUpperBound cfg)"
  shows "\<exists>cs g. ticks rmc cfg n initGlobals = Inr (cs, g) \<and> 0 \<le> sint (threadsActive g)
           \<and> sint (threadsActive g) \<le> sint (ThreadsActiveUpperBound cfg)"
proof (induction n)
  case 0
  show ?case using assms(2) by (simp add: initGlobals_def)
next
  case (Suc n)
  then obtain cs g where run: "ticks rmc cfg n initGlobals = Inr (cs, g)"
    and lo: "0 \<le> sint (threadsActive g)"
    and hi: "sint (threadsActive g) \<le> sint (ThreadsActiveUpperBound cfg)"
    by blast
  from tick_total [OF assms(1)] obtain cs' g' where
    step: "updateThreadsActive rmc cfg g = Inr (cs', g')" by blast
  from tick_in_range [OF step assms(2) lo hi] run step
  show ?case by simp
qed

lemma ticks_add:
  "ticks rmc cfg (m + n) g =
    (case ticks rmc cfg m g of
       Inl p \<Rightarrow> Inl p
     | Inr (cs, g') \<Rightarrow>
         (case ticks rmc cfg n g' of
            Inl p \<Rightarrow> Inl p
          | Inr (cs', g'') \<Rightarrow> Inr (cs @ cs', g'')))"
  by (induction n) (auto split: sum.splits)

section \<open>Runs of ticks\<close>

lemma ticks_rise:
  assumes inst: "threadsActiveInst rmc = Some h"
  shows "k \<le> nat (sint (ThreadsActiveUpperBound cfg)) \<Longrightarrow>
    \<exists>cs. ticks rmc cfg k initGlobals
           = Inr (cs, \<lparr>threadsActive = word_of_nat k, threadsBool = True\<rparr>)"
proof (induction k)
  case 0
  show ?case by (simp add: initGlobals_def)
next
  case (Suc k)
  then obtain cs where run: "ticks rmc cfg k initGlobals
      = Inr (cs, \<lparr>threadsActive = word_of_nat k, threadsBool = True\<rparr>)"
    by auto
  from Suc.prems have "k < nat (sint (ThreadsActiveUpperBound cfg))" by simp
  moreover from this have "k < 2 ^ 63"
    using nat_sint_lt [of "ThreadsActiveUpperBound cfg"] by simp
  ultimately have "(word_of_nat k :: int64) <s ThreadsActiveUpperBound cfg"
    by (simp add: word_sless_alt sint_of_nat64)
  with inst run show ?case
    by (simp add: tick_rising_below)
qed

lemma ticks_fall:
  assumes inst: "threadsActiveInst rmc = Some h"
    and k: "k \<le> m" and m: "m < 2 ^ 63"
  shows "\<exists>cs. ticks rmc cfg k \<lparr>threadsActive = word_of_nat m, threadsBool = False\<rparr>
           = Inr (cs, \<lparr>threadsActive = word_of_nat (m - k), threadsBool = False\<rparr>)"
  using k
proof (induction k)
  case 0
  show ?case by simp
next
  case (Suc k)
  then obtain cs where run: "ticks rmc cfg k \<lparr>threadsActive = word_of_nat m, threadsBool = False\<rparr>
      = Inr (cs, \<lparr>threadsActive = word_of_nat (m - k), threadsBool = False\<rparr>)"
    by auto
  from Suc.prems m have "0 < m - k" "m - k < 2 ^ 63" by simp_all
  then have pos: "0 <s (word_of_nat (m - k) :: int64)"
    by (rule word_of_nat_pos)
  from \<open>0 < m - k\<close> have "(word_of_nat (m - k) :: int64) - 1 = word_of_nat (m - Suc k)"
    using word_of_nat_pred [of "m - k"] by simp
  with inst run pos show ?case
    by (simp add: tick_falling_above)
qed

lemma ticks_half_period:
  assumes inst: "threadsActiveInst rmc = Some h"
    and B: "1 \<le> sint (ThreadsActiveUpperBound cfg)"
  shows "\<exists>cs. ticks rmc cfg (2 * nat (sint (ThreadsActiveUpperBound cfg))) initGlobals
           = Inr (cs, \<lparr>threadsActive = 0, threadsBool = False\<rparr>)"
proof -
  define b where "b = nat (sint (ThreadsActiveUpperBound cfg))"
  have b1: "1 \<le> b" and bmax: "b < 2 ^ 63"
    using B nat_sint_lt [of "ThreadsActiveUpperBound cfg"] by (simp_all add: b_def)
  have sb: "sint (word_of_nat b :: int64) = sint (ThreadsActiveUpperBound cfg)"
    using B bmax by (simp add: sint_of_nat64) (simp add: b_def)
  from ticks_rise [OF inst, of b cfg] obtain cs1 where
    up: "ticks rmc cfg b initGlobals = Inr (cs1, \<lparr>threadsActive = word_of_nat b, threadsBool = True\<rparr>)"
    by (auto simp: b_def)
  have "\<not> (word_of_nat b :: int64) <s ThreadsActiveUpperBound cfg"
    by (simp add: word_sless_alt sb)
  then have top: "updateThreadsActive rmc cfg \<lparr>threadsActive = word_of_nat b, threadsBool = True\<rparr>
      = Inr ([], \<lparr>threadsActive = word_of_nat b - 1, threadsBool = False\<rparr>)"
    by (simp add: tick_rising_top)
  have pred: "(word_of_nat b :: int64) - 1 = word_of_nat (b - 1)"
    by (rule word_of_nat_pred) (use b1 in simp)
  from top have top': "updateThreadsActive rmc cfg \<lparr>threadsActive = word_of_nat b, threadsBool = True\<rparr>
      = Inr ([], \<lparr>threadsActive = word_of_nat (b - 1), threadsBool = False\<rparr>)"
    by (simp only: pred)
  have turn: "ticks rmc cfg (Suc b) initGlobals
      = Inr (cs1, \<lparr>threadsActive = word_of_nat (b - 1), threadsBool = False\<rparr>)"
    by (simp only: ticks.simps up top' sum.case prod.case append_Nil2)
  have "b - 1 < 2 ^ 63" using bmax by simp
  from ticks_fall [OF inst le_refl this, of cfg] obtain cs2 where
    down: "ticks rmc cfg (b - 1) \<lparr>threadsActive = word_of_nat (b - 1), threadsBool = False\<rparr>
      = Inr (cs2, \<lparr>threadsActive = 0, threadsBool = False\<rparr>)"
    by auto
  have "2 * b = Suc b + (b - 1)" using b1 by simp
  then have "ticks rmc cfg (2 * b) initGlobals
      = Inr (cs1 @ cs2, \<lparr>threadsActive = 0, threadsBool = False\<rparr>)"
    using turn down by (simp only: ticks_add) simp
  then show ?thesis by (auto simp: b_def)
qed

lemma ticks_first:
  assumes inst: "threadsActiveInst rmc = Some h"
    and B: "1 \<le> sint (ThreadsActiveUpperBound cfg)"
  shows "ticks rmc cfg (Suc 0) initGlobals
           = Inr ([Add h 1], \<lparr>threadsActive = 1, threadsBool = True\<rparr>)"
  using assms by (simp add: initGlobals_def tick_rising_below word_sless_alt)

lemma ticks_period_state:
  assumes inst: "threadsActiveInst rmc = Some h"
    and B: "1 \<le> sint (ThreadsActiveUpperBound cfg)"
    and n: "0 < n"
  shows "\<exists>cs cs' g. ticks rmc cfg (n + 2 * nat (sint (ThreadsActiveUpperBound cfg))) initGlobals
             = Inr (cs, g) \<and> ticks rmc cfg n initGlobals = Inr (cs', g)"
proof -
  define p where "p = 2 * nat (sint (ThreadsActiveUpperBound cfg))"
  define g1 where "g1 = \<lparr>threadsActive = 1, threadsBool = True\<rparr>"
  from ticks_half_period [OF inst B] obtain cs0 where
    half: "ticks rmc cfg p initGlobals = Inr (cs0, \<lparr>threadsActive = 0, threadsBool = False\<rparr>)"
    by (auto simp: p_def)
  have "updateThreadsActive rmc cfg \<lparr>threadsActive = 0, threadsBool = False\<rparr> = Inr ([], g1)"
    by (simp add: tick_falling_bottom g1_def)
  with half have again: "ticks rmc cfg (Suc p) initGlobals = Inr (cs0, g1)" by simp
  have first: "ticks rmc cfg (Suc 0) initGlobals = Inr ([Add h 1], g1)"
    using ticks_first [OF inst B] by (simp add: g1_def)
  from n obtain m where m: "n = Suc m" by (cases n) auto
  from ticks_in_range [OF inst B, of n] obtain cs' g where
    run: "ticks rmc cfg n initGlobals = Inr (cs', g)" by blast
  have "n = Suc 0 + m" using m by simp
  then have "ticks rmc cfg (Suc 0 + m) initGlobals = Inr (cs', g)" using run by simp
  then obtain cs2 where rest: "ticks rmc cfg m g1 = Inr (cs2, g)"
    using first by (simp only: ticks_add) (auto split: sum.splits)
  have "n + p = Suc p + m" using m by simp
  then have "ticks rmc cfg (n + p) initGlobals = Inr (cs0 @ cs2, g)"
    using again rest by (simp only: ticks_add) simp
  with run show ?thesis by (auto simp: p_def)
qed

lemma ticks_range_any:
  assumes B: "1 \<le> sint (ThreadsActiveUpperBound cfg)"
  shows "ticks rmc cfg n initGlobals = Inr (cs, g) \<Longrightarrow>
    0 \<le> sint (threadsActive g) \<and> sint (threadsActive g) \<le> sint (ThreadsActiveUpperBound cfg)"
proof (induction n arbitrary: cs g)
  case 0
  then show ?case using B by (auto simp: initGlobals_def)
next
  case (Suc n)
  from Suc.prems obtain cs0 g0 cs1 where
    run: "ticks rmc cfg n initGlobals = Inr (cs0, g0)"
    and step: "updateThreadsActive rmc cfg g0 = Inr (cs1, g)"
    by (auto split: sum.splits)
  from Suc.IH [OF run] tick_in_range [OF step B] show ?case by simp
qed

lemma ticks_Suc_eval:
  "ticks rmc cfg n g = Inr (cs, g') \<Longrightarrow> updateThreadsActive rmc cfg g' = Inr (cs', g'') \<Longrightarrow>
   ticks rmc cfg (Suc n) g = Inr (cs @ cs', g'')"
  by simp

lemma ticks_bound3:
  "ticks exampleCollector (exampleConfig 3) 3 initGlobals
     = Inr ([Add 3 1, Add 3 1, Add 3 1], \<lparr>threadsActive = 3, threadsBool = True\<rparr>)"
  by (simp add: numeral_3_eq_3 updateThreadsActive_def callAdd_def exampleConfig_def
      exampleCollector_def initGlobals_def word_sless_alt)

section \<open>The boundary ticks\<close>

text \<open>Claim C1. Every tick of the oscillator is to pass one delta, \<open>+1\<close> or \<open>-1\<close>, to the
  up-down-counter through \<open>Add\<close>, also the tick that turns at a boundary. The two turning
  branches of \<open>updateThreadsActive\<close> change the variable \<open>threadsActive\<close> by one but make no
  call: with the bound 3, the tick from \<open>(3, rising)\<close> goes to \<open>(2, falling)\<close> and the tick
  from \<open>(0, falling)\<close> goes to \<open>(1, rising)\<close>, each without any \<open>Add\<close>.\<close>

theorem boundary_tick_makes_no_call:
  "updateThreadsActive exampleCollector (exampleConfig 3) \<lparr>threadsActive = 3, threadsBool = True\<rparr>
     = Inr ([], \<lparr>threadsActive = 2, threadsBool = False\<rparr>)
   \<and> updateThreadsActive exampleCollector (exampleConfig 3) \<lparr>threadsActive = 0, threadsBool = False\<rparr>
     = Inr ([], \<lparr>threadsActive = 1, threadsBool = True\<rparr>)"
  by (simp add: updateThreadsActive_def exampleConfig_def word_sless_alt)

text \<open>Claim C2. With the bound 3 the first seven ticks from \<open>(0, rising)\<close> are to pass the
  deltas \<open>+1, +1, +1, -1, -1, -1, +1\<close>. The variable does take the values
  \<open>1, 2, 3, 2, 1, 0, 1\<close>, but the fourth and the seventh tick make no call: after four ticks
  the counter has received three deltas, after seven ticks five.\<close>

theorem seven_ticks_bound_3:
  "ticks exampleCollector (exampleConfig 3) 3 initGlobals
     = Inr ([Add 3 1, Add 3 1, Add 3 1], \<lparr>threadsActive = 3, threadsBool = True\<rparr>)
   \<and> ticks exampleCollector (exampleConfig 3) 4 initGlobals
     = Inr ([Add 3 1, Add 3 1, Add 3 1], \<lparr>threadsActive = 2, threadsBool = False\<rparr>)
   \<and> ticks exampleCollector (exampleConfig 3) 6 initGlobals
     = Inr ([Add 3 1, Add 3 1, Add 3 1, Add 3 (- 1), Add 3 (- 1)],
            \<lparr>threadsActive = 0, threadsBool = False\<rparr>)
   \<and> ticks exampleCollector (exampleConfig 3) 7 initGlobals
     = Inr ([Add 3 1, Add 3 1, Add 3 1, Add 3 (- 1), Add 3 (- 1)],
            \<lparr>threadsActive = 1, threadsBool = True\<rparr>)"
proof -
  note ev = updateThreadsActive_def callAdd_def exampleConfig_def exampleCollector_def
    word_sless_alt
  have u4: "updateThreadsActive exampleCollector (exampleConfig 3)
      \<lparr>threadsActive = 3, threadsBool = True\<rparr> = Inr ([], \<lparr>threadsActive = 2, threadsBool = False\<rparr>)"
    by (simp add: ev)
  have u5: "updateThreadsActive exampleCollector (exampleConfig 3)
      \<lparr>threadsActive = 2, threadsBool = False\<rparr>
      = Inr ([Add 3 (- 1)], \<lparr>threadsActive = 1, threadsBool = False\<rparr>)"
    by (simp add: ev)
  have u6: "updateThreadsActive exampleCollector (exampleConfig 3)
      \<lparr>threadsActive = 1, threadsBool = False\<rparr>
      = Inr ([Add 3 (- 1)], \<lparr>threadsActive = 0, threadsBool = False\<rparr>)"
    by (simp add: ev)
  have u7: "updateThreadsActive exampleCollector (exampleConfig 3)
      \<lparr>threadsActive = 0, threadsBool = False\<rparr> = Inr ([], \<lparr>threadsActive = 1, threadsBool = True\<rparr>)"
    by (simp add: ev)
  have t4: "ticks exampleCollector (exampleConfig 3) 4 initGlobals
     = Inr ([Add 3 1, Add 3 1, Add 3 1], \<lparr>threadsActive = 2, threadsBool = False\<rparr>)"
    using ticks_Suc_eval [OF ticks_bound3 u4] by simp
  have t5: "ticks exampleCollector (exampleConfig 3) 5 initGlobals
     = Inr ([Add 3 1, Add 3 1, Add 3 1, Add 3 (- 1)], \<lparr>threadsActive = 1, threadsBool = False\<rparr>)"
    using ticks_Suc_eval [OF t4 u5] by simp
  have t6: "ticks exampleCollector (exampleConfig 3) 6 initGlobals
     = Inr ([Add 3 1, Add 3 1, Add 3 1, Add 3 (- 1), Add 3 (- 1)],
            \<lparr>threadsActive = 0, threadsBool = False\<rparr>)"
    using ticks_Suc_eval [OF t5 u6] by simp
  have t7: "ticks exampleCollector (exampleConfig 3) 7 initGlobals
     = Inr ([Add 3 1, Add 3 1, Add 3 1, Add 3 (- 1), Add 3 (- 1)],
            \<lparr>threadsActive = 1, threadsBool = True\<rparr>)"
    using ticks_Suc_eval [OF t6 u7] by simp
  from ticks_bound3 t4 t6 t7 show ?thesis by blast
qed

section \<open>The degenerate bound\<close>

lemma tick_bound0_rising:
  "ThreadsActiveUpperBound cfg = 0 \<Longrightarrow>
   updateThreadsActive rmc cfg \<lparr>threadsActive = 0, threadsBool = True\<rparr>
     = Inr ([], \<lparr>threadsActive = - 1, threadsBool = False\<rparr>)"
  by (simp add: updateThreadsActive_def word_sless_alt)

lemma tick_bound0_falling:
  "updateThreadsActive rmc cfg \<lparr>threadsActive = - 1, threadsBool = False\<rparr>
     = Inr ([], \<lparr>threadsActive = 0, threadsBool = True\<rparr>)"
  by (simp add: updateThreadsActive_def word_sless_alt)

lemma ticks_bound0_even:
  assumes "ThreadsActiveUpperBound cfg = 0"
  shows "ticks rmc cfg (2 * n) initGlobals = Inr ([], \<lparr>threadsActive = 0, threadsBool = True\<rparr>)"
proof (induction n)
  case 0
  show ?case by (simp add: initGlobals_def)
next
  case (Suc n)
  have "2 * Suc n = Suc (Suc (2 * n))" by simp
  with Suc tick_bound0_rising [OF assms, of rmc] tick_bound0_falling [of rmc cfg]
  show ?case by (simp only: ticks.simps sum.case prod.case append_Nil)
qed

text \<open>Claim C3, as stated: with the bound 0 the value stays 0 after every tick. It does
  not: the first tick from \<open>(0, rising)\<close> finds \<open>0 < 0\<close> false, turns and decrements, and
  leaves the value \<open>-1\<close>, below the range \<open>[0, 0]\<close>.\<close>

theorem degenerate_bound_value_leaves_zero:
  "ticks exampleCollector (exampleConfig 0) 1 initGlobals
     = Inr ([], \<lparr>threadsActive = - 1, threadsBool = False\<rparr>)
   \<and> (- 1 :: int64) <s 0"
proof -
  have "ThreadsActiveUpperBound (exampleConfig 0) = 0" by (simp add: exampleConfig_def)
  from tick_bound0_rising [OF this, of exampleCollector]
  have "ticks exampleCollector (exampleConfig 0) (Suc 0) initGlobals
     = Inr ([], \<lparr>threadsActive = - 1, threadsBool = False\<rparr>)"
    by (simp add: initGlobals_def)
  then show ?thesis by (simp add: word_sless_alt)
qed

text \<open>Claim C3, amended: with the bound 0 and a registered instrument, from \<open>(0, rising)\<close>
  the direction alternates on each tick and the value alternates with it: after an even
  number of ticks the globals are \<open>(0, rising)\<close>, after an odd number \<open>(-1, falling)\<close>.\<close>

theorem degenerate_bound_alternates:
  assumes "ThreadsActiveUpperBound cfg = 0" and "threadsActiveInst rmc = Some h"
  shows "(\<exists>cs. ticks rmc cfg (2 * n) initGlobals
            = Inr (cs, \<lparr>threadsActive = 0, threadsBool = True\<rparr>))
       \<and> (\<exists>cs. ticks rmc cfg (2 * n + 1) initGlobals
            = Inr (cs, \<lparr>threadsActive = - 1, threadsBool = False\<rparr>))"
proof -
  note even = ticks_bound0_even [OF assms(1), of rmc n]
  have "ticks rmc cfg (Suc (2 * n)) initGlobals
      = Inr ([], \<lparr>threadsActive = - 1, threadsBool = False\<rparr>)"
    using even tick_bound0_rising [OF assms(1), of rmc] by simp
  with even show ?thesis by simp
qed

theorem degenerate_bound_alternates_witness:
  "(\<exists>cs. ticks exampleCollector (exampleConfig 0) 4 initGlobals
            = Inr (cs, \<lparr>threadsActive = 0, threadsBool = True\<rparr>))
   \<and> (\<exists>cs. ticks exampleCollector (exampleConfig 0) 5 initGlobals
            = Inr (cs, \<lparr>threadsActive = - 1, threadsBool = False\<rparr>))"
proof -
  have B: "ThreadsActiveUpperBound (exampleConfig 0) = 0" by (simp add: exampleConfig_def)
  have inst: "threadsActiveInst exampleCollector = Some 3" by (simp add: exampleCollector_def)
  from degenerate_bound_alternates [OF B inst, of 2] show ?thesis by simp
qed

section \<open>Range and period\<close>

text \<open>Claim C6. For every bound \<open>B \<ge> 1\<close> and every number of ticks from \<open>(0, rising)\<close>, the
  value of \<open>threadsActive\<close> reached lies in \<open>[0, B]\<close>; and with a registered instrument
  every such run of ticks does return.\<close>

theorem oscillator_value_in_range:
  assumes "1 \<le>s ThreadsActiveUpperBound cfg"
  shows "(\<forall>cs g. ticks rmc cfg n initGlobals = Inr (cs, g) \<longrightarrow>
            0 \<le>s threadsActive g \<and> threadsActive g \<le>s ThreadsActiveUpperBound cfg)
       \<and> (threadsActiveInst rmc \<noteq> None \<longrightarrow> (\<exists>cs g. ticks rmc cfg n initGlobals = Inr (cs, g)))"
proof -
  from assms have B: "1 \<le> sint (ThreadsActiveUpperBound cfg)"
    by (simp add: word_sle_eq)
  have "0 \<le>s threadsActive g \<and> threadsActive g \<le>s ThreadsActiveUpperBound cfg"
    if "ticks rmc cfg n initGlobals = Inr (cs, g)" for cs g
    using ticks_range_any [OF B that] by (simp add: word_sle_eq)
  moreover have "\<exists>cs g. ticks rmc cfg n initGlobals = Inr (cs, g)"
    if "threadsActiveInst rmc \<noteq> None"
  proof -
    from that obtain h where "threadsActiveInst rmc = Some h" by auto
    from ticks_in_range [OF this B, of n] show ?thesis by blast
  qed
  ultimately show ?thesis by blast
qed

theorem oscillator_value_in_range_witness:
  "\<exists>cs g. ticks exampleCollector (exampleConfig 3) 7 initGlobals = Inr (cs, g)
     \<and> 0 \<le>s threadsActive g \<and> threadsActive g \<le>s 3"
proof -
  have B: "1 \<le>s ThreadsActiveUpperBound (exampleConfig 3)"
    by (simp add: exampleConfig_def word_sle_eq)
  have "threadsActiveInst exampleCollector \<noteq> None"
    by (simp add: exampleCollector_def)
  with oscillator_value_in_range [OF B, of exampleCollector 7]
  show ?thesis by (auto simp: exampleConfig_def)
qed

text \<open>Claim C7, as stated: \<open>2B\<close> ticks from \<open>(0, rising)\<close> lead back to \<open>(0, rising)\<close>. With
  the bound 1 the two ticks lead to \<open>(0, falling)\<close>: the value is back at 0, the direction
  is not.\<close>

theorem two_B_ticks_end_falling:
  "ticks exampleCollector (exampleConfig 1) 2 initGlobals
     = Inr ([Add 3 1], \<lparr>threadsActive = 0, threadsBool = False\<rparr>)
   \<and> \<lparr>threadsActive = 0, threadsBool = False\<rparr> \<noteq> initGlobals"
proof -
  have "ticks exampleCollector (exampleConfig 1) (Suc (Suc 0)) initGlobals
     = Inr ([Add 3 1], \<lparr>threadsActive = 0, threadsBool = False\<rparr>)"
    by (simp add: updateThreadsActive_def callAdd_def exampleConfig_def exampleCollector_def
        initGlobals_def word_sless_alt)
  then show ?thesis by (simp add: numeral_2_eq_2 initGlobals_def)
qed

text \<open>Claim C7, amended: for every bound \<open>B \<ge> 1\<close> and a registered instrument, \<open>2B\<close> ticks
  from \<open>(0, rising)\<close> lead to \<open>(0, falling)\<close>; the value has the period \<open>2B\<close> (after
  \<open>n + 2B\<close> ticks it is what it was after \<open>n\<close> ticks, for every \<open>n\<close>), and so have value
  and direction together from the first tick on.\<close>

theorem oscillator_period:
  assumes inst: "threadsActiveInst rmc = Some h"
    and B: "1 \<le>s ThreadsActiveUpperBound cfg"
  shows "(\<exists>cs. ticks rmc cfg (2 * nat (sint (ThreadsActiveUpperBound cfg))) initGlobals
            = Inr (cs, \<lparr>threadsActive = 0, threadsBool = False\<rparr>))
       \<and> (\<exists>cs cs' g g'.
             ticks rmc cfg (n + 2 * nat (sint (ThreadsActiveUpperBound cfg))) initGlobals = Inr (cs, g)
             \<and> ticks rmc cfg n initGlobals = Inr (cs', g')
             \<and> threadsActive g = threadsActive g'
             \<and> (0 < n \<longrightarrow> g = g'))"
proof -
  from B have B': "1 \<le> sint (ThreadsActiveUpperBound cfg)"
    by (simp add: word_sle_eq)
  note half = ticks_half_period [OF inst B']
  show ?thesis
  proof (cases n)
    case 0
    with half show ?thesis by (auto simp: initGlobals_def)
  next
    case (Suc m)
    then have "0 < n" by simp
    from ticks_period_state [OF inst B' this] half show ?thesis by auto
  qed
qed

theorem oscillator_period_witness:
  "(\<exists>cs. ticks exampleCollector (exampleConfig 3) 6 initGlobals
            = Inr (cs, \<lparr>threadsActive = 0, threadsBool = False\<rparr>))
   \<and> (\<exists>cs cs' g. ticks exampleCollector (exampleConfig 3) 7 initGlobals = Inr (cs, g)
         \<and> ticks exampleCollector (exampleConfig 3) 1 initGlobals = Inr (cs', g))"
proof -
  have inst: "threadsActiveInst exampleCollector = Some 3"
    by (simp add: exampleCollector_def)
  have B: "1 \<le>s ThreadsActiveUpperBound (exampleConfig 3)"
    by (simp add: exampleConfig_def word_sle_eq)
  have p: "2 * nat (sint (ThreadsActiveUpperBound (exampleConfig 3))) = 6"
    by (simp add: exampleConfig_def)
  from oscillator_period [OF inst B, of 1] show ?thesis
    unfolding p by auto
qed

section \<open>The generator callbacks\<close>

lemma Intn_range:
  assumes "0 <s n"
  shows "\<exists>v. Intn r n = Inr v \<and> 0 \<le>s v \<and> v <s n"
proof -
  define k where "k = r mod nat (sint n)"
  from assms have pos: "0 < sint n" by (simp add: word_sless_alt)
  then have "k < nat (sint n)" by (simp add: k_def)
  moreover from this have "k < 2 ^ 63" using nat_sint_lt [of n] by simp
  ultimately have "sint (word_of_nat k :: int64) = int k" and "int k < sint n"
    by (simp_all add: sint_of_nat64)
  then have "0 \<le>s (word_of_nat k :: int64)" and "(word_of_nat k :: int64) <s n"
    by (simp_all add: word_sle_eq word_sless_alt)
  moreover from pos have "Intn r n = Inr (word_of_nat k)"
    by (simp add: Intn_def k_def word_sle_eq)
  ultimately show ?thesis by blast
qed

lemma Intn_panic: "n \<le>s 0 \<Longrightarrow> Intn r n = Inl (Panic ''invalid argument to Intn'')"
  by (simp add: Intn_def)

text \<open>Claim C4, as stated: with an upper bound of 0 a generator callback fails with an
  error of its own, makes no \<open>Observe\<close> call and does not bring the process down. The
  callback has no such error: with the bound 0 the draw \<open>rand.Intn(0)\<close> panics, and nothing
  in the callback recovers from the panic.\<close>

theorem callback_panics_on_zero_bound:
  "cpuUsageCallback exampleCollector ((exampleConfig 3)\<lparr>CpuUsageUpperBound := 0\<rparr>) 5
     = Inl (Panic ''invalid argument to Intn'')"
  by (simp add: cpuUsageCallback_def Intn_def word_sle_eq)

text \<open>Claim C4, amended: on a registered instrument, each call of the CPU-usage callback
  and of the heap-size callback with an upper bound above 0 makes exactly one \<open>Observe\<close>
  call, with a value in \<open>[0, upperBound)\<close>, and then prints its line; with an upper bound
  of 0 or below the draw panics before any \<open>Observe\<close> call is made.\<close>

theorem generator_callbacks:
  assumes "cpuUsage rmc = Some hc" and "heapSize rmc = Some hh"
  shows "(0 <s CpuUsageUpperBound cfg \<longrightarrow>
            (\<exists>v. cpuUsageCallback rmc cfg r
                   = Inr [Observe hc v, Println ''CPU Usage asked by SDK'']
                 \<and> 0 \<le>s v \<and> v <s CpuUsageUpperBound cfg))
       \<and> (CpuUsageUpperBound cfg \<le>s 0 \<longrightarrow>
            cpuUsageCallback rmc cfg r = Inl (Panic ''invalid argument to Intn''))
       \<and> (0 <s TotalheapSizeUpperBound cfg \<longrightarrow>
            (\<exists>v. totalHeapSizeCallback rmc cfg r
                   = Inr [Observe hh v, Println ''Heapsize asked by SDK'']
                 \<and> 0 \<le>s v \<and> v <s TotalheapSizeUpperBound cfg))
       \<and> (TotalheapSizeUpperBound cfg \<le>s 0 \<longrightarrow>
            totalHeapSizeCallback rmc cfg r = Inl (Panic ''invalid argument to Intn''))"
proof -
  have cpu_ok: "\<exists>v. cpuUsageCallback rmc cfg r
        = Inr [Observe hc v, Println ''CPU Usage asked by SDK'']
        \<and> 0 \<le>s v \<and> v <s CpuUsageUpperBound cfg"
    if "0 <s CpuUsageUpperBound cfg"
  proof -
    from Intn_range [OF that, of r] obtain v where
      "Intn r (CpuUsageUpperBound cfg) = Inr v" "0 \<le>s v" "v <s CpuUsageUpperBound cfg"
      by blast
    with assms(1) show ?thesis
      by (simp add: cpuUsageCallback_def callObserve_def)
  qed
  have cpu_bad: "cpuUsageCallback rmc cfg r = Inl (Panic ''invalid argument to Intn'')"
    if "CpuUsageUpperBound cfg \<le>s 0"
    using Intn_panic [OF that, of r] by (simp add: cpuUsageCallback_def)
  have heap_ok: "\<exists>v. totalHeapSizeCallback rmc cfg r
        = Inr [Observe hh v, Println ''Heapsize asked by SDK'']
        \<and> 0 \<le>s v \<and> v <s TotalheapSizeUpperBound cfg"
    if "0 <s TotalheapSizeUpperBound cfg"
  proof -
    from Intn_range [OF that, of r] obtain v where
      "Intn r (TotalheapSizeUpperBound cfg) = Inr v" "0 \<le>s v" "v <s TotalheapSizeUpperBound cfg"
      by blast
    with assms(2) show ?thesis
      by (simp add: totalHeapSizeCallback_def callObserve_def)
  qed
  have heap_bad: "totalHeapSizeCallback rmc cfg r = Inl (Panic ''invalid argument to Intn'')"
    if "TotalheapSizeUpperBound cfg \<le>s 0"
    using Intn_panic [OF that, of r] by (simp add: totalHeapSizeCallback_def)
  from cpu_ok cpu_bad heap_ok heap_bad show ?thesis by blast
qed

theorem generator_callbacks_witness:
  "(\<exists>v. cpuUsageCallback exampleCollector (exampleConfig 3) 1234
           = Inr [Observe 1 v, Println ''CPU Usage asked by SDK''] \<and> 0 \<le>s v \<and> v <s 100)
   \<and> (\<exists>v. totalHeapSizeCallback exampleCollector (exampleConfig 3) 1234
           = Inr [Observe 2 v, Println ''Heapsize asked by SDK''] \<and> 0 \<le>s v \<and> v <s 100)
   \<and> cpuUsageCallback exampleCollector
        ((exampleConfig 3)\<lparr>CpuUsageUpperBound := 0, TotalheapSizeUpperBound := - 5\<rparr>) 1234
        = Inl (Panic ''invalid argument to Intn'')
   \<and> totalHeapSizeCallback exampleCollector
        ((exampleConfig 3)\<lparr>CpuUsageUpperBound := 0, TotalheapSizeUpperBound := - 5\<rparr>) 1234
        = Inl (Panic ''invalid argument to Intn'')"
proof -
  have c: "cpuUsage exampleCollector = Some 1" and h: "heapSize exampleCollector = Some 2"
    by (simp_all add: exampleCollector_def)
  have pos: "0 <s CpuUsageUpperBound (exampleConfig 3)"
    "0 <s TotalheapSizeUpperBound (exampleConfig 3)"
    by (simp_all add: exampleConfig_def word_sless_alt)
  have neg: "CpuUsageUpperBound
       ((exampleConfig 3)\<lparr>CpuUsageUpperBound := 0, TotalheapSizeUpperBound := - 5\<rparr>) \<le>s 0"
    "TotalheapSizeUpperBound
       ((exampleConfig 3)\<lparr>CpuUsageUpperBound := 0, TotalheapSizeUpperBound := - 5\<rparr>) \<le>s 0"
    by (simp_all add: word_sle_eq)
  have vals: "CpuUsageUpperBound (exampleConfig 3) = 100"
    "TotalheapSizeUpperBound (exampleConfig 3) = 100"
    by (simp_all add: exampleConfig_def)
  from generator_callbacks [OF c h, of "exampleConfig 3" 1234] pos
    generator_callbacks [OF c h,
      of "(exampleConfig 3)\<lparr>CpuUsageUpperBound := 0, TotalheapSizeUpperBound := - 5\<rparr>" 1234] neg
  show ?thesis unfolding vals by blast
qed

section \<open>Failing registrations\<close>

text \<open>Claim C5, as stated: a failing registration is fatal, the process does not go on
  with a part of the instruments. With a backend that rejects \<open>Threads Active\<close>, the
  constructor prints the error and returns a collector whose other three instruments are
  registered and whose fourth handle is nil.\<close>

theorem registration_failure_not_fatal:
  "NewRandomMetricCollector (exampleMeter ''Threads Active'') 0
     = (\<lparr>timeAlive = Some 1, cpuUsage = Some 2, heapSize = Some 0, threadsActiveInst = None\<rparr>,
        [Println ''instrument rejected''], 3)"
  by (simp add: NewRandomMetricCollector_def registerHeapSize_def registerThreadsActive_def
      registerTimeAlive_def registerCpuUsage_def exampleMeter_def printErr_def numeral_3_eq_3
      numeral_2_eq_2)

text \<open>Claim C5, amended: whatever the backend answers, \<open>NewRandomMetricCollector\<close> asks
  for all four instruments, in the order heap size, threads active, time alive, CPU usage;
  it stores each handle as answered, prints each error and nothing else, and returns the
  collector.\<close>

theorem registration_errors_only_printed:
  assumes "meter AsyncUpDownCounter ''Total Heap Size'' ''The current total heap size'' ''1'' s0
             = ((h1, e1), s1)"
    and "meter SyncUpDownCounter ''Threads Active'' ''The total amount of threads active'' ''1'' s1
             = ((h2, e2), s2)"
    and "meter SyncCounter ''Time Alive''
             ''Total amount of time that the application has been alive'' ''s'' s2
             = ((h3, e3), s3)"
    and "meter AsyncGauge ''CPU Usage'' ''Cpu usage percent'' ''%'' s3 = ((h4, e4), s4)"
  shows "NewRandomMetricCollector meter s0
     = (\<lparr>timeAlive = h3, cpuUsage = h4, heapSize = h1, threadsActiveInst = h2\<rparr>,
        printErr e1 @ printErr e2 @ printErr e3 @ printErr e4, s4)"
  using assms
  by (simp add: NewRandomMetricCollector_def registerHeapSize_def registerThreadsActive_def
      registerTimeAlive_def registerCpuUsage_def)

theorem registration_errors_only_printed_witness:
  "NewRandomMetricCollector (exampleMeter ''CPU Usage'') 0
     = (\<lparr>timeAlive = Some 2, cpuUsage = None, heapSize = Some 0, threadsActiveInst = Some 1\<rparr>,
        [Println ''instrument rejected''], 3)"
proof -
  have a: "exampleMeter ''CPU Usage'' AsyncUpDownCounter ''Total Heap Size''
      ''The current total heap size'' ''1'' 0 = ((Some 0, None), 1)"
    by (simp add: exampleMeter_def)
  have b: "exampleMeter ''CPU Usage'' SyncUpDownCounter ''Threads Active''
      ''The total amount of threads active'' ''1'' 1 = ((Some 1, None), 2)"
    by (simp add: exampleMeter_def)
  have c: "exampleMeter ''CPU Usage'' SyncCounter ''Time Alive''
      ''Total amount of time that the application has been alive'' ''s'' 2 = ((Some 2, None), 3)"
    by (simp add: exampleMeter_def)
  have d: "exampleMeter ''CPU Usage'' AsyncGauge ''CPU Usage'' ''Cpu usage percent'' ''%'' 3
      = ((None, Some ''instrument rejected''), 3)"
    by (simp add: exampleMeter_def)
  from registration_errors_only_printed [OF a b c d] show ?thesis
    by (simp add: printErr_def)
qed

section \<open>Loading the configuration\<close>

lemma getDefaultConfig_const:
  "getDefaultConfig c
     = \<lparr>Host = ''0.0.0.0'', Port = ''4567'', TimeAliveIncrementer' = 1,
        TotalheapSizeUpperBound' = 100, ThreadsActiveUpperBound' = 10,
        CpuUsageUpperBound' = 100\<rparr>"
  by (simp add: getDefaultConfig_def defaultHost_def defaultPort_def
      defaultTimeAliveIncrementer_def defaultTotalHeapSizeUpperBound_def
      defaultThreadsActiveUpperBound_def defaultCpuUsageUpperBound_def)

text \<open>Claim C8. When \<open>config.yaml\<close> cannot be read, and when it is read but the YAML
  library reports an error (whatever it wrote into the struct before), \<open>getConf\<close> returns
  the same struct: host \<open>0.0.0.0\<close>, port \<open>4567\<close>, incrementer 1, heap bound 100, threads
  bound 10, CPU bound 100.\<close>

theorem getConf_failure_gives_defaults:
  assumes "(\<exists>err. readFile ''config.yaml'' = Inl err)
         \<or> (\<exists>yamlFile c' err. readFile ''config.yaml'' = Inr yamlFile
               \<and> unmarshal yamlFile c = (c', Some err))"
  shows "getConf readFile unmarshal c
     = \<lparr>Host = ''0.0.0.0'', Port = ''4567'', TimeAliveIncrementer' = 1,
        TotalheapSizeUpperBound' = 100, ThreadsActiveUpperBound' = 10,
        CpuUsageUpperBound' = 100\<rparr>"
  using assms by (auto simp: getConf_def getDefaultConfig_const)

theorem getConf_failure_gives_defaults_witness:
  "getConf noFile hostPortUnmarshal zeroConf
     = \<lparr>Host = ''0.0.0.0'', Port = ''4567'', TimeAliveIncrementer' = 1,
        TotalheapSizeUpperBound' = 100, ThreadsActiveUpperBound' = 10,
        CpuUsageUpperBound' = 100\<rparr>
   \<and> getConf (oneFile ''Host: [unclosed'') failingUnmarshal zeroConf
     = getConf noFile hostPortUnmarshal zeroConf"
proof -
  have missing: "\<exists>err. noFile ''config.yaml'' = Inl err"
    by (simp add: noFile_def)
  have malformed: "\<exists>yamlFile c' err. oneFile ''Host: [unclosed'' ''config.yaml'' = Inr yamlFile
      \<and> failingUnmarshal yamlFile zeroConf = (c', Some err)"
    by (simp add: oneFile_def failingUnmarshal_def)
  from missing have "getConf noFile hostPortUnmarshal zeroConf
     = \<lparr>Host = ''0.0.0.0'', Port = ''4567'', TimeAliveIncrementer' = 1,
        TotalheapSizeUpperBound' = 100, ThreadsActiveUpperBound' = 10,
        CpuUsageUpperBound' = 100\<rparr>"
    by (intro getConf_failure_gives_defaults disjI1)
  moreover from malformed have "getConf (oneFile ''Host: [unclosed'') failingUnmarshal zeroConf
     = \<lparr>Host = ''0.0.0.0'', Port = ''4567'', TimeAliveIncrementer' = 1,
        TotalheapSizeUpperBound' = 100, ThreadsActiveUpperBound' = 10,
        CpuUsageUpperBound' = 100\<rparr>"
    by (intro getConf_failure_gives_defaults disjI2)
  ultimately show ?thesis by simp
qed

lemma decode_absent_Host:
  "(\<forall>v. HostEntry v \<notin> set doc) \<Longrightarrow> Host (decode doc c) = Host c"
  unfolding decode_def
proof (induction doc arbitrary: c)
  case Nil
  show ?case by simp
next
  case (Cons e doc)
  then show ?case by (cases e) auto
qed

lemma decode_absent_Port:
  "(\<forall>v. PortEntry v \<notin> set doc) \<Longrightarrow> Port (decode doc c) = Port c"
  unfolding decode_def
proof (induction doc arbitrary: c)
  case Nil
  show ?case by simp
next
  case (Cons e doc)
  then show ?case by (cases e) auto
qed

lemma decode_absent_TimeAliveIncrementer:
  "(\<forall>v. RandomTimeAliveIncrementer v \<notin> set doc) \<Longrightarrow> TimeAliveIncrementer' (decode doc c) = TimeAliveIncrementer' c"
  unfolding decode_def
proof (induction doc arbitrary: c)
  case Nil
  show ?case by simp
next
  case (Cons e doc)
  then show ?case by (cases e) auto
qed

lemma decode_absent_TotalheapSizeUpperBound:
  "(\<forall>v. RandomTotalHeapSizeUpperBound v \<notin> set doc) \<Longrightarrow> TotalheapSizeUpperBound' (decode doc c) = TotalheapSizeUpperBound' c"
  unfolding decode_def
proof (induction doc arbitrary: c)
  case Nil
  show ?case by simp
next
  case (Cons e doc)
  then show ?case by (cases e) auto
qed

lemma decode_absent_ThreadsActiveUpperBound:
  "(\<forall>v. RandomThreadsActiveUpperBound v \<notin> set doc) \<Longrightarrow> ThreadsActiveUpperBound' (decode doc c) = ThreadsActiveUpperBound' c"
  unfolding decode_def
proof (induction doc arbitrary: c)
  case Nil
  show ?case by simp
next
  case (Cons e doc)
  then show ?case by (cases e) auto
qed

lemma decode_absent_CpuUsageUpperBound:
  "(\<forall>v. RandomCpuUsageUpperBound v \<notin> set doc) \<Longrightarrow> CpuUsageUpperBound' (decode doc c) = CpuUsageUpperBound' c"
  unfolding decode_def
proof (induction doc arbitrary: c)
  case Nil
  show ?case by simp
next
  case (Cons e doc)
  then show ?case by (cases e) auto
qed

text \<open>Claim C9. When the file is read and decoded without error, \<open>getConf\<close> returns the
  struct as decoded from the zero struct of \<open>main\<close>, with no default put in: a field whose
  key the document does not have keeps its zero value, the empty string for host and port
  and 0 for the incrementer and the three bounds.\<close>

theorem getConf_success_no_defaulting:
  assumes "readFile ''config.yaml'' = Inr yamlFile"
    and "unmarshal yamlFile zeroConf = (decode doc zeroConf, None)"
  shows "getConf readFile unmarshal zeroConf = decode doc zeroConf
       \<and> ((\<forall>v. HostEntry v \<notin> set doc) \<longrightarrow>
            Host (getConf readFile unmarshal zeroConf) = [])
       \<and> ((\<forall>v. PortEntry v \<notin> set doc) \<longrightarrow>
            Port (getConf readFile unmarshal zeroConf) = [])
       \<and> ((\<forall>v. RandomTimeAliveIncrementer v \<notin> set doc) \<longrightarrow>
            TimeAliveIncrementer' (getConf readFile unmarshal zeroConf) = 0)
       \<and> ((\<forall>v. RandomTotalHeapSizeUpperBound v \<notin> set doc) \<longrightarrow>
            TotalheapSizeUpperBound' (getConf readFile unmarshal zeroConf) = 0)
       \<and> ((\<forall>v. RandomThreadsActiveUpperBound v \<notin> set doc) \<longrightarrow>
            ThreadsActiveUpperBound' (getConf readFile unmarshal zeroConf) = 0)
       \<and> ((\<forall>v. RandomCpuUsageUpperBound v \<notin> set doc) \<longrightarrow>
            CpuUsageUpperBound' (getConf readFile unmarshal zeroConf) = 0)"
proof -
  from assms have eq: "getConf readFile unmarshal zeroConf = decode doc zeroConf"
    by (simp add: getConf_def)
  show ?thesis
    unfolding eq
    using decode_absent_Host [of doc zeroConf] decode_absent_Port [of doc zeroConf]
      decode_absent_TimeAliveIncrementer [of doc zeroConf]
      decode_absent_TotalheapSizeUpperBound [of doc zeroConf]
      decode_absent_ThreadsActiveUpperBound [of doc zeroConf]
      decode_absent_CpuUsageUpperBound [of doc zeroConf]
    by (simp add: zeroConf_def)
qed

theorem getConf_success_no_defaulting_witness:
  "getConf (oneFile ''Host: 127.0.0.1 Port: 8080'') hostPortUnmarshal zeroConf
     = \<lparr>Host = ''127.0.0.1'', Port = ''8080'', TimeAliveIncrementer' = 0,
        TotalheapSizeUpperBound' = 0, ThreadsActiveUpperBound' = 0, CpuUsageUpperBound' = 0\<rparr>
   \<and> ThreadsActiveUpperBound'
        (getConf (oneFile ''Host: 127.0.0.1 Port: 8080'') hostPortUnmarshal zeroConf) = 0
   \<and> defaultThreadsActiveUpperBound = 10"
proof -
  have rd: "oneFile ''Host: 127.0.0.1 Port: 8080'' ''config.yaml''
      = Inr ''Host: 127.0.0.1 Port: 8080''"
    by (simp add: oneFile_def)
  have um: "hostPortUnmarshal ''Host: 127.0.0.1 Port: 8080'' zeroConf
      = (decode [HostEntry ''127.0.0.1'', PortEntry ''8080''] zeroConf, None)"
    by (simp add: hostPortUnmarshal_def)
  have absent: "\<forall>v. RandomThreadsActiveUpperBound v
      \<notin> set [HostEntry ''127.0.0.1'', PortEntry ''8080'']"
    by simp
  have val: "decode [HostEntry ''127.0.0.1'', PortEntry ''8080''] zeroConf
     = \<lparr>Host = ''127.0.0.1'', Port = ''8080'', TimeAliveIncrementer' = 0,
        TotalheapSizeUpperBound' = 0, ThreadsActiveUpperBound' = 0, CpuUsageUpperBound' = 0\<rparr>"
    by (simp add: decode_def zeroConf_def)
  from getConf_success_no_defaulting
      [of "oneFile ''Host: 127.0.0.1 Port: 8080''" "''Host: 127.0.0.1 Port: 8080''"
          hostPortUnmarshal "[HostEntry ''127.0.0.1'', PortEntry ''8080'']", OF rd um]
    absent val show ?thesis
    by (simp add: defaultThreadsActiveUpperBound_def)
qed

end
